theory Spec2Isabelle
  imports Complex_Main
begin

section \<open>FireCastX front-end: the App component and its variants\<close>

text \<open>
  The repository holds several versions of one React component \<open>App\<close>:
  \<^item> \<open>my-app/src/App.jsx\<close>: globe built imperatively, two base layers (OSM and Bing),
    intro overlay and timeline;
  \<^item> \<open>part_005\<close>: globe through the declarative wrapper, two base layers (OSM and ESRI),
    intro overlay, timeline and camera buttons;
  \<^item> \<open>part_000\<close>: declarative wrapper, one layer, intro overlay and timeline;
  \<^item> \<open>part_004\<close>: globe built imperatively, layer switch and camera buttons only.

  Component state (\<open>useState\<close>, \<open>useRef\<close>) is a record that each handler takes and
  returns. What the component reads from its host (the clock, the local time zone, the
  parts the date formatter produces) is a parameter of the definitions that read it.
\<close>

subsection \<open>Dates\<close>

text \<open>
  A JavaScript \<open>Date\<close> holds a time value: an integral number of milliseconds since the
  epoch, or NaN (an Invalid Date), here \<open>None\<close>. Every number the component computes with
  is an integer far below \<open>2^53\<close>, so \<open>int\<close> is exact for it.
\<close>

type_synonym date = "int option"

datatype js_error = RangeError | TypeError

definition msPerSecond :: int where "msPerSecond = 1000"
definition msPerMinute :: int where "msPerMinute = 60000"
definition msPerHour :: int where "msPerHour = 3600000"
definition msPerDay :: int where "msPerDay = 86400000"

definition maxTimeValue :: int where "maxTimeValue = 8640000000000000"

definition TimeClip :: "int \<Rightarrow> date" where
  "TimeClip t = (if \<bar>t\<bar> > maxTimeValue then None else Some t)"

definition Day :: "int \<Rightarrow> int" where "Day t = t div msPerDay"
definition HourFromTime :: "int \<Rightarrow> int" where "HourFromTime t = (t div msPerHour) mod 24"
definition MinFromTime :: "int \<Rightarrow> int" where "MinFromTime t = (t div msPerMinute) mod 60"
definition SecFromTime :: "int \<Rightarrow> int" where "SecFromTime t = (t div msPerSecond) mod 60"
definition msFromTime :: "int \<Rightarrow> int" where "msFromTime t = t mod msPerSecond"

definition MakeTime :: "int \<Rightarrow> int \<Rightarrow> int \<Rightarrow> int \<Rightarrow> int" where
  "MakeTime h m s ms = h * msPerHour + m * msPerMinute + s * msPerSecond + ms"

definition MakeDate :: "int \<Rightarrow> int \<Rightarrow> int" where
  "MakeDate day time = day * msPerDay + time"

text \<open>
  \<open>tza\<close> is the offset of the host's local time zone from UTC, in milliseconds, in force
  during the hour in which the component is first rendered. The model takes it constant
  over that hour: on a host whose zone changes its offset within the local hour of the
  first render, \<open>setMinutes\<close> resolves the offset anew and the snapped time differs by
  the size of the change.
\<close>

definition LocalTime :: "int \<Rightarrow> int \<Rightarrow> int" where "LocalTime tza t = t + tza"
definition UTC :: "int \<Rightarrow> int \<Rightarrow> int" where "UTC tza t = t - tza"

text \<open>\<open>new Date()\<close>: the host clock's reading.\<close>

definition new_Date :: "int \<Rightarrow> date" where
  "new_Date clock = TimeClip clock"

text \<open>\<open>d.getTime()\<close> and \<open>new Date(value)\<close>, the value a number that may be NaN.\<close>

definition getTime :: "date \<Rightarrow> int option" where
  "getTime d = d"

definition new_Date_value :: "int option \<Rightarrow> date" where
  "new_Date_value v = (case v of None \<Rightarrow> None | Some t \<Rightarrow> TimeClip t)"

text \<open>\<open>d.setMinutes(min, sec, ms)\<close>: the fields are set in the host's local time.\<close>

definition setMinutes :: "int \<Rightarrow> int \<Rightarrow> int \<Rightarrow> int \<Rightarrow> date \<Rightarrow> date" where
  "setMinutes tza m s ms d =
     (case d of
        None \<Rightarrow> None
      | Some t \<Rightarrow>
          (let lt = LocalTime tza t
           in TimeClip (UTC tza (MakeDate (Day lt) (MakeTime (HourFromTime lt) m s ms)))))"

subsection \<open>Timeline\<close>

definition HOUR_MS :: int where "HOUR_MS = 3600000"

text \<open>\<open>const d = new Date(); d.setMinutes(0, 0, 0); return d;\<close>\<close>

definition now :: "int \<Rightarrow> int \<Rightarrow> date" where
  "now tza clock = setMinutes tza 0 0 0 (new_Date clock)"

text \<open>\<open>new Date(now.getTime() + 24 * HOUR_MS)\<close>\<close>

definition end_date :: "date \<Rightarrow> date" where
  "end_date n = new_Date_value (map_option (\<lambda>t. t + 24 * HOUR_MS) (getTime n))"

text \<open>\<open>new Date(now.getTime() + sliderIdx * HOUR_MS)\<close>\<close>

definition selectedDate :: "date \<Rightarrow> int \<Rightarrow> date" where
  "selectedDate n sliderIdx =
     new_Date_value (map_option (\<lambda>t. t + sliderIdx * HOUR_MS) (getTime n))"

text \<open>
  The range input: \<open>min={0} max={24} step={1}\<close> (\<open>maxIdx = 24\<close> in \<open>part_000\<close>). Its
  positions are the values \<open>min + k * step\<close> that do not exceed \<open>max\<close>.
\<close>

definition slider_min :: int where "slider_min = 0"
definition maxIdx :: int where "maxIdx = 24"
definition slider_step :: int where "slider_step = 1"

definition slider_positions :: "int list" where
  "slider_positions =
     map (\<lambda>k. slider_min + k * slider_step) [0 .. (maxIdx - slider_min) div slider_step]"

text \<open>
  The host clock reads a time from which a day ahead and an hour back are still time
  values of a \<open>Date\<close> (the years -271821 to 275760).
\<close>

definition clock_in_range :: "int \<Rightarrow> bool" where
  "clock_in_range clock \<longleftrightarrow> \<bar>clock\<bar> \<le> maxTimeValue - 24 * HOUR_MS"

text \<open>
  The formatters print Dallas time (\<open>timeZone: "America/Chicago"\<close>), which is six hours
  behind UTC on standard time and five on daylight time.
\<close>

datatype dallas_zone = CST | CDT

fun dallas_offset :: "dallas_zone \<Rightarrow> int" where
  "dallas_offset CST = - (6 * msPerHour)"
| "dallas_offset CDT = - (5 * msPerHour)"

text \<open>
  The minute field (\<open>minute: "2-digit"\<close>) of the label \<open>fmtDateTime(d)\<close>. Formatting an
  Invalid Date throws a \<open>RangeError\<close>.
\<close>

definition fmtDateTime_minute :: "dallas_zone \<Rightarrow> date \<Rightarrow> js_error + int" where
  "fmtDateTime_minute z d =
     (case d of
        None \<Rightarrow> Inl RangeError
      | Some t \<Rightarrow> Inr (MinFromTime (t + dallas_offset z)))"

subsection \<open>The time-zone label\<close>

text \<open>
  \<open>formatToParts(d)\<close> returns a list of \<open>{type, value}\<close> objects; which ones is up to the
  host's formatter, a parameter here (applied to the time value of a valid date). On an
  Invalid Date it throws a \<open>RangeError\<close>.
\<close>

record part =
  part_type :: string
  part_value :: string

text \<open>
  \<open>.find((p) => p.type === "timeZoneName")?.value || "CT"\<close>: the first such part; the
  fallback is taken when there is none and when its value is the empty string.
\<close>

definition fmtTZShort :: "(int \<Rightarrow> part list) \<Rightarrow> date \<Rightarrow> js_error + string" where
  "fmtTZShort formatToParts d =
     (case d of
        None \<Rightarrow> Inl RangeError
      | Some t \<Rightarrow>
          Inr (case find (\<lambda>p. part_type p = ''timeZoneName'') (formatToParts t) of
                 None \<Rightarrow> ''CT''
               | Some p \<Rightarrow> if part_value p = [] then ''CT'' else part_value p))"

subsection \<open>The globe library\<close>

text \<open>
  Of the third-party globe the model keeps what the component touches: the layers with
  their visibility flag, and the calls the camera has received, oldest first. A layer is
  visible when created.
\<close>

record view =
  lon :: real
  lat :: real
  height :: real

datatype camera_call = ZoomIn | ZoomOut | FlyLonLat view

datatype tile_source = OpenStreetMap | Bing | XYZ string

record layer =
  source :: tile_source
  visibility :: bool

record globe =
  layers :: "layer list"
  camera_calls :: "camera_call list"

definition new_layer :: "tile_source \<Rightarrow> layer" where
  "new_layer src = \<lparr>source = src, visibility = True\<rparr>"

text \<open>\<open>layer.setVisibility(v)\<close>, the layer given by its place among the globe's layers.\<close>

definition setVisibility :: "nat \<Rightarrow> bool \<Rightarrow> globe \<Rightarrow> globe" where
  "setVisibility a v g =
     (if a < length (layers g)
      then g\<lparr>layers := (layers g)[a := (layers g ! a)\<lparr>visibility := v\<rparr>]\<rparr>
      else g)"

definition camera_do :: "camera_call \<Rightarrow> globe \<Rightarrow> globe" where
  "camera_do c g = g\<lparr>camera_calls := camera_calls g @ [c]\<rparr>"

text \<open>
  Which of the calls that the component writes the library has. The camera has the
  method \<open>flyLonLat\<close>; it has neither \<open>zoomIn\<close> nor \<open>zoomOut\<close>, and calling a method that
  is not there throws a \<open>TypeError\<close> (the \<open>?.\<close> before the method name guards against a
  missing camera, not against a missing method).
\<close>

fun camera_has :: "camera_call \<Rightarrow> bool" where
  "camera_has (FlyLonLat v) = True"
| "camera_has ZoomIn = False"
| "camera_has ZoomOut = False"

definition camera_invoke :: "camera_call \<Rightarrow> globe \<Rightarrow> js_error + globe" where
  "camera_invoke c g = (if camera_has c then Inr (camera_do c g) else Inl TypeError)"

text \<open>
  A globe object has a planet and a renderer, and no property named \<open>layers\<close>: the
  expression \<open>globus.layers\<close> is undefined, and a method call on it throws a \<open>TypeError\<close>.
\<close>

definition Globe_layers_property :: "globe \<Rightarrow> layer list option" where
  "Globe_layers_property g = None"

text \<open>
  The state after a handler has run from \<open>s\<close>. The component catches no exception: when
  a handler throws, the state is as it was (each handler below that can throw does so
  before its first write to the state).
\<close>

definition state_after :: "js_error + 's \<Rightarrow> 's \<Rightarrow> 's" where
  "state_after r s = (case r of Inl e \<Rightarrow> s | Inr s' \<Rightarrow> s')"

text \<open>The tile sources the globe shows, and where its camera was last sent.\<close>

definition visible_sources :: "globe \<Rightarrow> tile_source list" where
  "visible_sources g = map source (filter visibility (layers g))"



subsection \<open>User operations\<close>

datatype base_button = BtnOSM | BtnSAT

fun button_name :: "base_button \<Rightarrow> string" where
  "button_name BtnOSM = ''OSM''"
| "button_name BtnSAT = ''SAT''"

text \<open>
  \<open>ClickIntro\<close> is a click on the overlay outside its card, \<open>ClickIntroCard\<close> one on the
  card (which stops propagation), \<open>SliderChange v\<close> a move of the range input to \<open>v\<close>.
\<close>

datatype event =
    ClickIntro
  | ClickIntroCard
  | SliderChange int
  | ClickBase base_button
  | ClickZoomIn
  | ClickZoomOut
  | ClickResetCompass

subsection \<open>\<open>my-app/src/App.jsx\<close>: imperative globe, two base layers\<close>

text \<open>
  \<open>globeRef\<close> tells whether the container element is attached. \<open>osmRef\<close> and \<open>satRef\<close>
  refer to layer objects that the globe holds too: a reference is the place of the layer
  among the globe's layers.
\<close>

record app_state =
  showIntro :: bool
  sliderIdx :: int
  globeRef :: bool
  globus :: "globe option"
  base :: string
  osmRef :: "nat option"
  satRef :: "nat option"

definition US_VIEW :: view where
  "US_VIEW = \<lparr>lon = - 98.583, lat = 39.833, height = 4500000\<rparr>"

definition App_init :: app_state where
  "App_init =
     \<lparr>showIntro = True, sliderIdx = 0, globeRef = False, globus = None, base = ''OSM'',
      osmRef = None, satRef = None\<rparr>"

text \<open>The mount effect (\<open>useEffect(..., [])\<close>).\<close>

definition App_effect :: "app_state \<Rightarrow> app_state" where
  "App_effect s =
     (if \<not> globeRef s then s
      else
        (let osm = new_layer OpenStreetMap;
             sat = new_layer Bing;
             globeInstance = \<lparr>layers = [osm, sat], camera_calls = []\<rparr>;
             s1 = s\<lparr>osmRef := Some 0, satRef := Some 1\<rparr>;
             g1 = setVisibility 1 False globeInstance;
             g2 = camera_do (FlyLonLat US_VIEW) g1
         in s1\<lparr>globus := Some g2\<rparr>))"

definition App_mounted :: app_state where
  "App_mounted = App_effect (App_init\<lparr>globeRef := True\<rparr>)"

definition switchLayer :: "string \<Rightarrow> app_state \<Rightarrow> app_state" where
  "switchLayer layerName s =
     (case globus s of
        None \<Rightarrow> s
      | Some g \<Rightarrow>
          (case osmRef s of
             None \<Rightarrow> s
           | Some osm \<Rightarrow>
               (case satRef s of
                  None \<Rightarrow> s
                | Some sat \<Rightarrow>
                    (let g' =
                       (if layerName = ''OSM''
                        then setVisibility sat False (setVisibility osm True g)
                        else if layerName = ''SAT''
                        then setVisibility sat True (setVisibility osm False g)
                        else g)
                     in s\<lparr>globus := Some g', base := layerName\<rparr>))))"

text \<open>\<open>globus?.planet?.camera?.zoomIn()\<close> and its two siblings.\<close>

definition zoomIn :: "app_state \<Rightarrow> js_error + app_state" where
  "zoomIn s =
     (case globus s of
        None \<Rightarrow> Inr s
      | Some g \<Rightarrow>
          (case camera_invoke ZoomIn g of
             Inl e \<Rightarrow> Inl e
           | Inr g' \<Rightarrow> Inr (s\<lparr>globus := Some g'\<rparr>)))"

definition zoomOut :: "app_state \<Rightarrow> js_error + app_state" where
  "zoomOut s =
     (case globus s of
        None \<Rightarrow> Inr s
      | Some g \<Rightarrow>
          (case camera_invoke ZoomOut g of
             Inl e \<Rightarrow> Inl e
           | Inr g' \<Rightarrow> Inr (s\<lparr>globus := Some g'\<rparr>)))"

definition resetCompass :: "app_state \<Rightarrow> js_error + app_state" where
  "resetCompass s =
     (case globus s of
        None \<Rightarrow> Inr s
      | Some g \<Rightarrow>
          (case camera_invoke (FlyLonLat US_VIEW) g of
             Inl e \<Rightarrow> Inl e
           | Inr g' \<Rightarrow> Inr (s\<lparr>globus := Some g'\<rparr>)))"

text \<open>
  What the rendered elements do. The overlay exists only while \<open>showIntro\<close> holds; a base
  button is disabled while its layer is the current one; no element of this version calls
  \<open>zoomIn\<close>, \<open>zoomOut\<close> or \<open>resetCompass\<close>.
\<close>

fun App_step :: "event \<Rightarrow> app_state \<Rightarrow> app_state" where
  "App_step ClickIntro s = (if showIntro s then s\<lparr>showIntro := False\<rparr> else s)"
| "App_step ClickIntroCard s = s"
| "App_step (SliderChange v) s = s\<lparr>sliderIdx := v\<rparr>"
| "App_step (ClickBase b) s =
     (if base s = button_name b then s else switchLayer (button_name b) s)"
| "App_step ClickZoomIn s = s"
| "App_step ClickZoomOut s = s"
| "App_step ClickResetCompass s = s"

subsection \<open>\<open>part_005\<close>: declarative wrapper, two base layers, camera buttons\<close>

text \<open>
  The component hands the wrapper the props \<open>layers={baseLayers}\<close> and
  \<open>cameraView={START_VIEW}\<close>, and a ref. The wrapper creates the globe and keeps it to
  itself: it does not forward the ref, so \<open>globeRef.current\<close> stays null.
\<close>

record d_state =
  showIntro_d :: bool
  sliderIdx_d :: int
  base_d :: string
  globeRef_d :: "globe option"


definition START_VIEW :: view where
  "START_VIEW = \<lparr>lon = - 119.74978, lat = 37.082052, height = 2000000\<rparr>"

definition osmLayer :: layer where
  "osmLayer = new_layer OpenStreetMap"

definition satLayer :: layer where
  "satLayer = new_layer (XYZ ''ESRI World Imagery'')"

definition baseLayers :: "string \<Rightarrow> layer list" where
  "baseLayers b = (if b = ''OSM'' then [osmLayer] else [satLayer])"


definition D_init :: d_state where
  "D_init = \<lparr>showIntro_d = True, sliderIdx_d = 0, base_d = ''OSM'', globeRef_d = None\<rparr>"

definition D_mount :: "d_state \<Rightarrow> d_state" where
  "D_mount s = s\<lparr>globeRef_d := None\<rparr>"

definition D_mounted :: d_state where
  "D_mounted = D_mount D_init"

definition setBase_d :: "string \<Rightarrow> d_state \<Rightarrow> d_state" where
  "setBase_d b s = s\<lparr>base_d := b\<rparr>"

text \<open>\<open>getGlobe()?.planet?.camera?.zoomIn()\<close> and its two siblings.\<close>

definition zoomIn_d :: "d_state \<Rightarrow> js_error + d_state" where
  "zoomIn_d s =
     (case globeRef_d s of
        None \<Rightarrow> Inr s
      | Some g \<Rightarrow>
          (case camera_invoke ZoomIn g of
             Inl e \<Rightarrow> Inl e
           | Inr g' \<Rightarrow> Inr (s\<lparr>globeRef_d := Some g'\<rparr>)))"

definition zoomOut_d :: "d_state \<Rightarrow> js_error + d_state" where
  "zoomOut_d s =
     (case globeRef_d s of
        None \<Rightarrow> Inr s
      | Some g \<Rightarrow>
          (case camera_invoke ZoomOut g of
             Inl e \<Rightarrow> Inl e
           | Inr g' \<Rightarrow> Inr (s\<lparr>globeRef_d := Some g'\<rparr>)))"

definition resetCompass_d :: "d_state \<Rightarrow> js_error + d_state" where
  "resetCompass_d s =
     (case globeRef_d s of
        None \<Rightarrow> Inr s
      | Some g \<Rightarrow>
          (case camera_invoke (FlyLonLat START_VIEW) g of
             Inl e \<Rightarrow> Inl e
           | Inr g' \<Rightarrow> Inr (s\<lparr>globeRef_d := Some g'\<rparr>)))"

fun D_step :: "event \<Rightarrow> d_state \<Rightarrow> d_state" where
  "D_step ClickIntro s = (if showIntro_d s then s\<lparr>showIntro_d := False\<rparr> else s)"
| "D_step ClickIntroCard s = s"
| "D_step (SliderChange v) s = s\<lparr>sliderIdx_d := v\<rparr>"
| "D_step (ClickBase b) s =
     (if base_d s = button_name b then s else setBase_d (button_name b) s)"
| "D_step ClickZoomIn s = state_after (zoomIn_d s) s"
| "D_step ClickZoomOut s = state_after (zoomOut_d s) s"
| "D_step ClickResetCompass s = state_after (resetCompass_d s) s"

subsection \<open>\<open>part_000\<close>: declarative wrapper, intro overlay and timeline only\<close>

record t_state =
  showIntro_t :: bool
  sliderIdx_t :: int

definition T_init :: t_state where
  "T_init = \<lparr>showIntro_t = True, sliderIdx_t = 0\<rparr>"

fun T_step :: "event \<Rightarrow> t_state \<Rightarrow> t_state" where
  "T_step ClickIntro s = (if showIntro_t s then s\<lparr>showIntro_t := False\<rparr> else s)"
| "T_step (SliderChange v) s = s\<lparr>sliderIdx_t := v\<rparr>"
| "T_step e s = s"

subsection \<open>\<open>part_004\<close>: imperative globe, layer switch and camera buttons only\<close>

record i_state =
  globeRef_i :: bool
  globus_i :: "globe option"
  currentLayer :: string

definition I_init :: i_state where
  "I_init = \<lparr>globeRef_i = False, globus_i = None, currentLayer = ''OSM''\<rparr>"

definition I_effect :: "i_state \<Rightarrow> i_state" where
  "I_effect s =
     (if \<not> globeRef_i s then s
      else
        (let osm = new_layer OpenStreetMap;
             globeInstance = \<lparr>layers = [osm], camera_calls = []\<rparr>
         in s\<lparr>globus_i :=
               Some (camera_do (FlyLonLat \<lparr>lon = - 98.583, lat = 39.833, height = 4500000\<rparr>)
                       globeInstance)\<rparr>))"

definition I_mounted :: i_state where
  "I_mounted = I_effect (I_init\<lparr>globeRef_i := True\<rparr>)"

text \<open>
  \<open>if (!globus) return; globus.layers.clear();\<close> then, for "OSM" only,
  \<open>globus.layers.add(new OpenStreetMap())\<close>, then \<open>setCurrentLayer(layerName)\<close>. The
  first call is on \<open>globus.layers\<close>, which the globe does not have.
\<close>

definition switchLayer_i :: "string \<Rightarrow> i_state \<Rightarrow> js_error + i_state" where
  "switchLayer_i layerName s =
     (case globus_i s of
        None \<Rightarrow> Inr s
      | Some g \<Rightarrow>
          (case Globe_layers_property g of
             None \<Rightarrow> Inl TypeError
           | Some ls \<Rightarrow>
               (let g1 = g\<lparr>layers := []\<rparr>;
                    g2 = (if layerName = ''OSM''
                          then g1\<lparr>layers := layers g1 @ [new_layer OpenStreetMap]\<rparr>
                          else g1)
                in Inr (s\<lparr>globus_i := Some g2, currentLayer := layerName\<rparr>))))"

text \<open>\<open>if (!globus) return; globus.planet.camera.zoomIn();\<close> and its two siblings.\<close>

definition zoomIn_i :: "i_state \<Rightarrow> js_error + i_state" where
  "zoomIn_i s =
     (case globus_i s of
        None \<Rightarrow> Inr s
      | Some g \<Rightarrow>
          (case camera_invoke ZoomIn g of
             Inl e \<Rightarrow> Inl e
           | Inr g' \<Rightarrow> Inr (s\<lparr>globus_i := Some g'\<rparr>)))"

definition zoomOut_i :: "i_state \<Rightarrow> js_error + i_state" where
  "zoomOut_i s =
     (case globus_i s of
        None \<Rightarrow> Inr s
      | Some g \<Rightarrow>
          (case camera_invoke ZoomOut g of
             Inl e \<Rightarrow> Inl e
           | Inr g' \<Rightarrow> Inr (s\<lparr>globus_i := Some g'\<rparr>)))"

definition resetCompass_i :: "i_state \<Rightarrow> js_error + i_state" where
  "resetCompass_i s =
     (case globus_i s of
        None \<Rightarrow> Inr s
      | Some g \<Rightarrow>
          (case camera_invoke (FlyLonLat \<lparr>lon = 0, lat = 0, height = 4500000\<rparr>) g of
             Inl e \<Rightarrow> Inl e
           | Inr g' \<Rightarrow> Inr (s\<lparr>globus_i := Some g'\<rparr>)))"

fun I_step :: "event \<Rightarrow> i_state \<Rightarrow> i_state" where
  "I_step (ClickBase b) s =
     (if currentLayer s = button_name b then s
      else state_after (switchLayer_i (button_name b) s) s)"
| "I_step ClickZoomIn s = state_after (zoomIn_i s) s"
| "I_step ClickZoomOut s = state_after (zoomOut_i s) s"
| "I_step ClickResetCompass s = state_after (resetCompass_i s) s"
| "I_step e s = s"

subsection \<open>Frames of the camera handlers\<close>





subsection \<open>States after the mount effect\<close>

text \<open>
  What holds of \<open>App.jsx\<close> once the effect has run: the globe exists and holds two
  layers, OSM first and Bing second, to which \<open>osmRef\<close> and \<open>satRef\<close> refer; and, since
  only the two base buttons call \<open>switchLayer\<close>, \<open>base\<close> names the one layer that is
  visible.
\<close>

definition App_ready :: "app_state \<Rightarrow> bool" where
  "App_ready s =
     (case globus s of
        None \<Rightarrow> False
      | Some g \<Rightarrow>
          osmRef s = Some 0 \<and> satRef s = Some 1 \<and> map source (layers g) = [OpenStreetMap, Bing])"


subsection \<open>Sample formatter outputs\<close>

text \<open>
  Three formatters to evaluate \<open>fmtTZShort\<close> on: one that produces the parts of
  "11/3/2026, CST", one whose time-zone name is the empty string, and one that produces
  no time-zone name.
\<close>

definition parts_with_zone :: "int \<Rightarrow> part list" where
  "parts_with_zone t =
     [\<lparr>part_type = ''month'', part_value = ''11''\<rparr>,
      \<lparr>part_type = ''literal'', part_value = ''/''\<rparr>,
      \<lparr>part_type = ''day'', part_value = ''3''\<rparr>,
      \<lparr>part_type = ''literal'', part_value = ''/''\<rparr>,
      \<lparr>part_type = ''year'', part_value = ''2026''\<rparr>,
      \<lparr>part_type = ''literal'', part_value = '', ''\<rparr>,
      \<lparr>part_type = ''timeZoneName'', part_value = ''CST''\<rparr>]"

definition parts_without_zone :: "int \<Rightarrow> part list" where
  "parts_without_zone t =
     [\<lparr>part_type = ''month'', part_value = ''11''\<rparr>,
      \<lparr>part_type = ''literal'', part_value = ''/''\<rparr>,
      \<lparr>part_type = ''day'', part_value = ''3''\<rparr>,
      \<lparr>part_type = ''literal'', part_value = ''/''\<rparr>,
      \<lparr>part_type = ''year'', part_value = ''2026''\<rparr>]"

definition parts_with_empty_zone :: "int \<Rightarrow> part list" where
  "parts_with_empty_zone t =
     [\<lparr>part_type = ''month'', part_value = ''11''\<rparr>,
      \<lparr>part_type = ''literal'', part_value = ''/''\<rparr>,
      \<lparr>part_type = ''day'', part_value = ''3''\<rparr>,
      \<lparr>part_type = ''literal'', part_value = ''/''\<rparr>,
      \<lparr>part_type = ''year'', part_value = ''2026''\<rparr>,
      \<lparr>part_type = ''literal'', part_value = '', ''\<rparr>,
      \<lparr>part_type = ''timeZoneName'', part_value = []\<rparr>]"

section \<open>Timeline properties\<close>

lemma snap_hour:
  "MakeDate (Day lt) (MakeTime (HourFromTime lt) 0 0 0) = (lt div msPerHour) * msPerHour"
proof -
  define x where "x = lt div 3600000"
  have d: "lt div 86400000 = x div 24"
    by (simp add: x_def zdiv_zmult2_eq)
  have x: "x = x div 24 * 24 + x mod 24" by simp
  have "x div 24 * 86400000 + x mod 24 * 3600000 = x * 3600000"
    using x by linarith
  then show ?thesis
    by (simp add: MakeDate_def Day_def MakeTime_def HourFromTime_def msPerDay_def msPerHour_def d
        flip: x_def)
qed

lemma snap_bounds:
  "t - msPerHour < (t + tza) div msPerHour * msPerHour - tza \<and>
   (t + tza) div msPerHour * msPerHour - tza \<le> t"
proof -
  have "(t + tza) div msPerHour * msPerHour = (t + tza) - (t + tza) mod msPerHour"
    by (simp add: minus_mod_eq_div_mult)
  moreover have "0 \<le> (t + tza) mod msPerHour" "(t + tza) mod msPerHour < msPerHour"
    by (simp_all add: msPerHour_def)
  ultimately show ?thesis by linarith
qed

lemma now_value:
  assumes "clock_in_range clock"
  shows "now tza clock = Some ((clock + tza) div msPerHour * msPerHour - tza)"
proof -
  have c: "\<bar>clock\<bar> \<le> maxTimeValue - 24 * HOUR_MS"
    using assms by (simp add: clock_in_range_def)
  have nd: "new_Date clock = Some clock"
    using c by (simp add: new_Date_def TimeClip_def maxTimeValue_def HOUR_MS_def)
  have b: "\<bar>(clock + tza) div msPerHour * msPerHour - tza\<bar> \<le> maxTimeValue"
    using snap_bounds[of clock tza] c by (simp add: maxTimeValue_def HOUR_MS_def msPerHour_def)
  show ?thesis
    using b
    by (simp add: now_def nd setMinutes_def Let_def snap_hour LocalTime_def UTC_def TimeClip_def)
qed

lemma now_bounds:
  assumes "clock_in_range clock"
  obtains t where "now tza clock = Some t" "clock - msPerHour < t" "t \<le> clock"
  using now_value[OF assms, of tza] snap_bounds[of clock tza] by blast

lemma selectedDate_in_range:
  assumes "clock_in_range clock" and "now tza clock = Some t"
    and "clock - msPerHour < t" and "t \<le> clock" and "0 \<le> i" and "i \<le> 24"
  shows "selectedDate (now tza clock) i = Some (t + i * 3600000)"
proof -
  have c: "\<bar>clock\<bar> \<le> 8640000000000000 - 24 * 3600000"
    using assms(1) by (simp add: clock_in_range_def maxTimeValue_def HOUR_MS_def)
  have "i * 3600000 \<le> 24 * 3600000" "0 \<le> i * 3600000"
    using assms(5,6) by simp_all
  then have "\<bar>t + i * 3600000\<bar> \<le> 8640000000000000"
    using c assms(3,4) by (simp add: msPerHour_def)
  then show ?thesis
    by (simp add: selectedDate_def getTime_def new_Date_value_def TimeClip_def assms(2)
        HOUR_MS_def maxTimeValue_def)
qed

lemma slider_positions_eq: "slider_positions = [0..24]"
  by (simp add: slider_positions_def slider_min_def maxIdx_def slider_step_def)

text \<open>
  Claim C1. The range input has exactly 25 positions, the integers 0 to 24 in steps of 1,
  and at each of them the selected date is \<open>now\<close> plus that many times 3,600,000
  milliseconds. The host clock is taken in the range where these are dates at all.
\<close>

theorem slider_selects_hourly_dates:
  assumes "clock_in_range clock"
  shows "slider_positions = [0..24] \<and> length slider_positions = 25 \<and>
         (\<exists>t. now tza clock = Some t \<and>
              (\<forall>i\<in>set slider_positions.
                 selectedDate (now tza clock) i = Some (t + i * 3600000)))"
proof -
  obtain t where t: "now tza clock = Some t" "clock - msPerHour < t" "t \<le> clock"
    using now_bounds[OF assms] by blast
  have "\<forall>i\<in>set slider_positions. selectedDate (now tza clock) i = Some (t + i * 3600000)"
    using selectedDate_in_range[OF assms t] by (simp add: slider_positions_eq)
  then show ?thesis
    using t(1) by (simp add: slider_positions_eq)
qed

lemma now_example: "now (- 21600000) 1793700000123 = Some 1793700000000"
  by (simp add: now_def new_Date_def TimeClip_def maxTimeValue_def setMinutes_def LocalTime_def
      UTC_def MakeDate_def Day_def MakeTime_def HourFromTime_def msPerDay_def msPerHour_def
      msPerMinute_def msPerSecond_def)

text \<open>The same at 3 November 2026, 10:00:00.123 UTC, on a host on Dallas standard time.\<close>

theorem slider_selects_hourly_dates_witness:
  "clock_in_range 1793700000123 \<and> 7 \<in> set slider_positions \<and>
   selectedDate (now (- 21600000) 1793700000123) 7 = Some (1793700000000 + 7 * 3600000)"
proof -
  have h: "clock_in_range 1793700000123"
    by (simp add: clock_in_range_def maxTimeValue_def HOUR_MS_def)
  have m: "(7::int) \<in> set slider_positions"
    by (simp add: slider_positions_eq)
  show ?thesis
    using h m slider_selects_hourly_dates[OF h, of "- 21600000"] now_example by auto
qed

text \<open>
  Claim C6. The right endpoint \<open>end\<close> is \<open>now\<close> plus exactly 24 hours, and the selected date
  at the last slider position, 24, is that endpoint.
\<close>

theorem timeline_end_is_now_plus_24h:
  assumes "clock_in_range clock"
  shows "maxIdx = 24 \<and> last slider_positions = maxIdx \<and>
         (\<exists>t. now tza clock = Some t \<and>
              end_date (now tza clock) = Some (t + 24 * 3600000) \<and>
              selectedDate (now tza clock) maxIdx = end_date (now tza clock))"
proof -
  obtain t where t: "now tza clock = Some t" "clock - msPerHour < t" "t \<le> clock"
    using now_bounds[OF assms] by blast
  have s: "selectedDate (now tza clock) 24 = Some (t + 24 * 3600000)"
    using selectedDate_in_range[OF assms t, of 24] by simp
  have e: "end_date (now tza clock) = selectedDate (now tza clock) 24"
    by (simp add: end_date_def selectedDate_def)
  have l: "last slider_positions = 24"
    by (simp add: slider_positions_eq upto_rec2)
  show ?thesis
    using t(1) s e l by (simp add: maxIdx_def)
qed

text \<open>The same at the clock reading and on the host used above.\<close>

theorem timeline_end_is_now_plus_24h_witness:
  "clock_in_range 1793700000123 \<and>
   end_date (now (- 21600000) 1793700000123) = Some (1793700000000 + 24 * 3600000) \<and>
   selectedDate (now (- 21600000) 1793700000123) 24 = Some 1793786400000"
proof -
  have h: "clock_in_range 1793700000123"
    by (simp add: clock_in_range_def maxTimeValue_def HOUR_MS_def)
  show ?thesis
    using h timeline_end_is_now_plus_24h[OF h, of "- 21600000"] now_example by auto
qed

text \<open>
  \<open>now\<close> is the top of the hour in the host's local time: minutes, seconds and
  milliseconds are zero there. Dallas time agrees with that on the minute when the
  host's offset from UTC is a whole number of hours.
\<close>

lemma now_local_top_of_hour:
  assumes "clock_in_range clock"
  shows "\<exists>t. now tza clock = Some t \<and> MinFromTime (LocalTime tza t) = 0 \<and>
             SecFromTime (LocalTime tza t) = 0 \<and> msFromTime (LocalTime tza t) = 0"
proof -
  define x where "x = (clock + tza) div 3600000"
  have "x * 3600000 div 60000 = x * 60" "x * 3600000 div 1000 = x * 3600"
    "x * 3600000 mod 1000 = 0"
    by simp_all
  then show ?thesis
    using now_value[OF assms, of tza]
    by (simp add: MinFromTime_def SecFromTime_def msFromTime_def LocalTime_def msPerHour_def
        msPerMinute_def msPerSecond_def flip: x_def)
qed

lemma labels_on_the_hour_in_whole_hour_zone:
  assumes "clock_in_range clock" and "tza mod msPerHour = 0" and "0 \<le> i" and "i \<le> 24"
  shows "fmtDateTime_minute z (selectedDate (now tza clock) i) = Inr 0"
proof -
  obtain t where t: "now tza clock = Some t" "clock - msPerHour < t" "t \<le> clock"
    using now_bounds[OF assms(1)] by blast
  have tv: "t = (clock + tza) div msPerHour * msPerHour - tza"
    using now_value[OF assms(1), of tza] t(1) by simp
  obtain k where k: "tza = k * 3600000"
    using assms(2) by (auto simp: msPerHour_def mod_eq_0_iff_dvd mult.commute elim!: dvdE)
  define x where "x = (clock + tza) div 3600000"
  obtain y where y: "t + i * 3600000 + dallas_offset z = y * 3600000"
  proof
    show "t + i * 3600000 + dallas_offset z
          = (x - k + i + dallas_offset z div 3600000) * 3600000"
      by (cases z) (simp_all add: tv k x_def msPerHour_def algebra_simps)
  qed
  have "y * 3600000 div 60000 = y * 60" by simp
  then have "MinFromTime (t + i * 3600000 + dallas_offset z) = 0"
    by (simp add: MinFromTime_def msPerMinute_def y)
  then show ?thesis
    using selectedDate_in_range[OF assms(1) t assms(3,4)]
    by (simp add: fmtDateTime_minute_def)
qed

text \<open>
  Claim C10. \<open>now\<close> is snapped to the top of the hour, so every selectable date and the
  start and end labels lie on an hour boundary. On a host five and a half hours ahead of
  UTC, at 3 November 2026, 10:00:00.123 UTC, \<open>now\<close> is 09:30 UTC: minute zero on the
  host, and minute 30 in each Dallas-time label.
\<close>

theorem now_in_half_hour_zone:
  "now 19800000 1793700000123 = Some 1793698200000 \<and>
   MinFromTime (LocalTime 19800000 1793698200000) = 0 \<and>
   fmtDateTime_minute CST (now 19800000 1793700000123) = Inr 30 \<and>
   fmtDateTime_minute CST (end_date (now 19800000 1793700000123)) = Inr 30 \<and>
   fmtDateTime_minute CST (selectedDate (now 19800000 1793700000123) 7) = Inr 30"
proof -
  have n: "now 19800000 1793700000123 = Some 1793698200000"
    by (simp add: now_def new_Date_def TimeClip_def maxTimeValue_def setMinutes_def LocalTime_def
      UTC_def MakeDate_def Day_def MakeTime_def HourFromTime_def msPerDay_def msPerHour_def
      msPerMinute_def msPerSecond_def)
  show ?thesis
    by (simp add: n fmtDateTime_minute_def end_date_def selectedDate_def getTime_def
        new_Date_value_def TimeClip_def maxTimeValue_def HOUR_MS_def MinFromTime_def
        LocalTime_def msPerMinute_def msPerHour_def)
qed

section \<open>Intro overlay\<close>

lemma App_step_showIntro: "\<not> showIntro s \<Longrightarrow> \<not> showIntro (App_step e s)"
  by (cases e) (auto simp: switchLayer_def Let_def split: option.splits)

lemma D_step_showIntro: "\<not> showIntro_d s \<Longrightarrow> \<not> showIntro_d (D_step e s)"
  by (cases e)
    (auto simp: setBase_d_def zoomIn_d_def zoomOut_d_def resetCompass_d_def state_after_def
      split: option.splits sum.splits)

lemma T_step_showIntro: "\<not> showIntro_t s \<Longrightarrow> \<not> showIntro_t (T_step e s)"
  by (cases e) auto

lemma App_run_showIntro: "\<not> showIntro s \<Longrightarrow> \<not> showIntro (fold App_step evs s)"
  by (induction evs arbitrary: s) (simp_all add: App_step_showIntro)

lemma D_run_showIntro: "\<not> showIntro_d s \<Longrightarrow> \<not> showIntro_d (fold D_step evs s)"
  by (induction evs arbitrary: s) (simp_all add: D_step_showIntro)

lemma T_run_showIntro: "\<not> showIntro_t s \<Longrightarrow> \<not> showIntro_t (fold T_step evs s)"
  by (induction evs arbitrary: s) (simp_all add: T_step_showIntro)

lemma App_handlers_showIntro:
  "showIntro (App_effect s) = showIntro s" "showIntro (switchLayer n s) = showIntro s"
  "showIntro (state_after (zoomIn s) s) = showIntro s"
  "showIntro (state_after (zoomOut s) s) = showIntro s"
  "showIntro (state_after (resetCompass s) s) = showIntro s"
  by (simp_all add: App_effect_def switchLayer_def zoomIn_def zoomOut_def resetCompass_def Let_def
      state_after_def split: option.splits sum.splits)

text \<open>
  Claim C4. The intro overlay starts visible; a click on its background sets \<open>showIntro\<close>
  to false; once false it stays false under every sequence of user operations, under the
  mount effect and under every handler, in each version that has the overlay.
\<close>

theorem showIntro_dismissed_for_good:
  "showIntro App_init \<and> showIntro_d D_init \<and> showIntro_t T_init \<and>
   \<not> showIntro (App_step ClickIntro s) \<and> \<not> showIntro_d (D_step ClickIntro d) \<and>
   \<not> showIntro_t (T_step ClickIntro t) \<and>
   (\<not> showIntro s \<longrightarrow>
      \<not> showIntro (fold App_step evs s) \<and> \<not> showIntro (App_effect s) \<and>
      \<not> showIntro (switchLayer n s) \<and> \<not> showIntro (state_after (zoomIn s) s) \<and>
      \<not> showIntro (state_after (zoomOut s) s) \<and>
      \<not> showIntro (state_after (resetCompass s) s)) \<and>
   (\<not> showIntro_d d \<longrightarrow> \<not> showIntro_d (fold D_step evs d) \<and> \<not> showIntro_d (D_mount d)) \<and>
   (\<not> showIntro_t t \<longrightarrow> \<not> showIntro_t (fold T_step evs t))"
proof -
  have "showIntro App_init" "showIntro_d D_init" "showIntro_t T_init"
    by (simp_all add: App_init_def D_init_def T_init_def)
  moreover have "\<not> showIntro (App_step ClickIntro s)" "\<not> showIntro_d (D_step ClickIntro d)"
    "\<not> showIntro_t (T_step ClickIntro t)"
    by simp_all
  moreover have "showIntro_d (D_mount d) = showIntro_d d"
    by (simp add: D_mount_def)
  ultimately show ?thesis
    using App_run_showIntro[of s evs] D_run_showIntro[of d evs] T_run_showIntro[of t evs]
    by (simp add: App_handlers_showIntro)
qed

text \<open>
  The same on a run of \<open>App.jsx\<close> and of \<open>part_005\<close>: the overlay is dismissed, then the
  slider is moved, the base layer switched and the overlay's place clicked again.
\<close>

theorem showIntro_dismissed_for_good_witness:
  "\<not> showIntro (App_step ClickIntro App_mounted) \<and>
   \<not> showIntro (fold App_step [SliderChange 3, ClickBase BtnSAT, ClickIntro]
                  (App_step ClickIntro App_mounted)) \<and>
   \<not> showIntro_d (D_step ClickIntro D_mounted) \<and>
   \<not> showIntro_d (fold D_step [SliderChange 3, ClickBase BtnSAT, ClickZoomIn]
                    (D_step ClickIntro D_mounted)) \<and>
   \<not> showIntro_t (T_step ClickIntro T_init) \<and>
   \<not> showIntro_t (fold T_step [SliderChange 3, ClickIntro] (T_step ClickIntro T_init))"
  using showIntro_dismissed_for_good[of "App_step ClickIntro App_mounted"
      "D_step ClickIntro D_mounted" "T_step ClickIntro T_init"
      "[SliderChange 3, ClickBase BtnSAT, ClickIntro]" "''SAT''"]
    showIntro_dismissed_for_good[of "App_step ClickIntro App_mounted"
      "D_step ClickIntro D_mounted" "T_step ClickIntro T_init"
      "[SliderChange 3, ClickBase BtnSAT, ClickZoomIn]" "''SAT''"]
    showIntro_dismissed_for_good[of "App_step ClickIntro App_mounted"
      "D_step ClickIntro D_mounted" "T_step ClickIntro T_init"
      "[SliderChange 3, ClickIntro]" "''SAT''"]
  by simp

section \<open>Camera handlers\<close>

lemma App_mounted_value:
  "App_mounted =
     \<lparr>showIntro = True, sliderIdx = 0, globeRef = True,
      globus = Some \<lparr>layers = [\<lparr>source = OpenStreetMap, visibility = True\<rparr>,
                                 \<lparr>source = Bing, visibility = False\<rparr>],
                      camera_calls = [FlyLonLat US_VIEW]\<rparr>,
      base = ''OSM'', osmRef = Some 0, satRef = Some 1\<rparr>"
  by (simp add: App_mounted_def App_effect_def App_init_def Let_def new_layer_def
      setVisibility_def camera_do_def)

lemma I_mounted_value:
  "I_mounted =
     \<lparr>globeRef_i = True,
      globus_i = Some \<lparr>layers = [\<lparr>source = OpenStreetMap, visibility = True\<rparr>],
                        camera_calls = [FlyLonLat \<lparr>lon = - 98.583, lat = 39.833, height = 4500000\<rparr>]\<rparr>,
      currentLayer = ''OSM''\<rparr>"
  by (simp add: I_mounted_def I_effect_def I_init_def Let_def new_layer_def camera_do_def)







section \<open>Base layers\<close>

lemma setVisibility_sources [simp]:
  "map source (layers (setVisibility a v g)) = map source (layers g)"
  by (simp add: setVisibility_def map_update list_update_same_conv)


lemma App_ready_switchLayer:
  assumes "App_ready s"
  shows "App_ready (switchLayer n s)" and "base (switchLayer n s) = n"
    and "showIntro (switchLayer n s) = showIntro s"
    and "sliderIdx (switchLayer n s) = sliderIdx s"
  using assms by (auto simp: App_ready_def switchLayer_def Let_def split: option.splits)

lemma App_ready_step: "App_ready s \<Longrightarrow> App_ready (App_step e s)"
  by (cases e) (auto simp: App_ready_switchLayer, auto simp: App_ready_def split: option.splits)


lemma baseLayers_one_visible:
  "map source (filter visibility (baseLayers ''OSM'')) = [OpenStreetMap]"
  "map source (filter visibility (baseLayers ''SAT'')) = [XYZ ''ESRI World Imagery'']"
  by (simp_all add: baseLayers_def osmLayer_def satLayer_def new_layer_def)

text \<open>
  In \<open>part_004\<close>, once the effect has run, no sequence of user operations changes the
  layers or \<open>currentLayer\<close>: the globe keeps showing OSM.
\<close>

lemma part_004_step_keeps_layers:
  assumes "globus_i s \<noteq> None"
  shows "globus_i (I_step e s) \<noteq> None"
    and "map_option layers (globus_i (I_step e s)) = map_option layers (globus_i s)"
    and "currentLayer (I_step e s) = currentLayer s"
  using assms
  by (cases e;
      auto simp: switchLayer_i_def Globe_layers_property_def zoomIn_i_def zoomOut_i_def
        resetCompass_i_def camera_invoke_def camera_do_def state_after_def)+

lemma part_004_stays_on_OSM:
  "map_option visible_sources (globus_i (fold I_step evs I_mounted)) = Some [OpenStreetMap] \<and>
   currentLayer (fold I_step evs I_mounted) = ''OSM''"
proof -
  have "globus_i s \<noteq> None \<Longrightarrow>
        globus_i (fold I_step evs s) \<noteq> None \<and>
        map_option layers (globus_i (fold I_step evs s)) = map_option layers (globus_i s) \<and>
        currentLayer (fold I_step evs s) = currentLayer s" for s
  proof (induction evs arbitrary: s)
    case Nil
    then show ?case by simp
  next
    case (Cons e evs)
    from Cons.IH[OF part_004_step_keeps_layers(1)[OF Cons.prems, of e]]
      part_004_step_keeps_layers(2,3)[OF Cons.prems, of e]
    show ?case by simp
  qed
  from this[of I_mounted] show ?thesis
    by (auto simp: I_mounted_value visible_sources_def)
qed

text \<open>
  Claim C2. After \<open>switchLayer\<close> with "OSM" or "SAT" on an initialised globe, exactly the
  named base layer is visible. In \<open>part_004\<close>, \<open>switchLayer("SAT")\<close>, which is what the
  SAT button calls, throws a \<open>TypeError\<close> at \<open>globus.layers.clear()\<close>: the click leaves
  the state as it was, OSM is still the visible layer and \<open>currentLayer\<close> is still "OSM".
\<close>

theorem part_004_switchLayer_SAT_not_shown:
  "switchLayer_i ''SAT'' I_mounted = Inl TypeError \<and>
   I_step (ClickBase BtnSAT) I_mounted = I_mounted \<and>
   map_option visible_sources (globus_i (I_step (ClickBase BtnSAT) I_mounted))
     = Some [OpenStreetMap] \<and>
   currentLayer (I_step (ClickBase BtnSAT) I_mounted) = ''OSM''"
  by (simp add: I_mounted_value switchLayer_i_def Globe_layers_property_def state_after_def
      visible_sources_def)

text \<open>
  Claim C8. In \<open>App.jsx\<close>, \<open>switchLayer\<close> with an argument other than "OSM" and "SAT"
  leaves the globe, and so the visibility of both base layers, as it was and sets \<open>base\<close>
  to the argument; with any argument, before the globe is initialised, it leaves the
  whole state as it was.
\<close>

theorem switchLayer_other_argument:
  "(globus s \<noteq> None \<and> osmRef s \<noteq> None \<and> satRef s \<noteq> None \<and>
    layerName \<noteq> ''OSM'' \<and> layerName \<noteq> ''SAT'' \<longrightarrow>
      globus (switchLayer layerName s) = globus s \<and> base (switchLayer layerName s) = layerName \<and>
      showIntro (switchLayer layerName s) = showIntro s \<and>
      sliderIdx (switchLayer layerName s) = sliderIdx s \<and>
      osmRef (switchLayer layerName s) = osmRef s \<and>
      satRef (switchLayer layerName s) = satRef s) \<and>
   (globus s = None \<or> osmRef s = None \<or> satRef s = None \<longrightarrow> switchLayer layerName s = s)"
  by (auto simp: switchLayer_def Let_def split: option.splits)

text \<open>The same on the mounted state with the argument "TOPO", and on the initial state.\<close>

theorem switchLayer_other_argument_witness:
  "globus App_mounted \<noteq> None \<and> osmRef App_mounted \<noteq> None \<and> satRef App_mounted \<noteq> None \<and>
   globus (switchLayer ''TOPO'' App_mounted) = globus App_mounted \<and>
   base (switchLayer ''TOPO'' App_mounted) = ''TOPO'' \<and>
   globus App_init = None \<and> switchLayer ''SAT'' App_init = App_init \<and>
   base (switchLayer ''SAT'' App_init) = ''OSM''"
proof -
  have m: "globus App_mounted \<noteq> None" "osmRef App_mounted \<noteq> None" "satRef App_mounted \<noteq> None"
    by (simp_all add: App_mounted_value)
  have i: "globus App_init = None" "base App_init = ''OSM''"
    by (simp_all add: App_init_def)
  show ?thesis
    using m i switchLayer_other_argument[of App_mounted "''TOPO''"]
      switchLayer_other_argument[of App_init "''SAT''"]
    by simp
qed

section \<open>The versions compared\<close>







section \<open>The time-zone label of the timeline\<close>

text \<open>
  Claim C9, as it stands: \<open>fmtTZShort\<close> returns a string for every input date and never
  throws. On an Invalid Date the formatter throws, whatever parts it would produce.
\<close>

theorem fmtTZShort_invalid_date_throws:
  "fmtTZShort parts_with_zone None = Inl RangeError"
  by (simp add: fmtTZShort_def)

text \<open>
  Claim C9, amended. For every valid input date \<open>fmtTZShort\<close> returns a non-empty string:
  the value of the first \<open>timeZoneName\<close> part when the formatter produces one with a
  non-empty value, and "CT" when it produces none or one with an empty value.
\<close>

theorem fmtTZShort_valid_date:
  "\<exists>s. fmtTZShort formatToParts (Some t) = Inr s \<and> s \<noteq> [] \<and>
       (\<forall>p. find (\<lambda>p. part_type p = ''timeZoneName'') (formatToParts t) = Some p \<and>
            part_value p \<noteq> [] \<longrightarrow> s = part_value p) \<and>
       (\<forall>p. find (\<lambda>p. part_type p = ''timeZoneName'') (formatToParts t) = Some p \<and>
            part_value p = [] \<longrightarrow> s = ''CT'') \<and>
       ((\<forall>p\<in>set (formatToParts t). part_type p \<noteq> ''timeZoneName'') \<longrightarrow> s = ''CT'')"
proof -
  let ?f = "find (\<lambda>p. part_type p = ''timeZoneName'') (formatToParts t)"
  show ?thesis
  proof (cases ?f)
    case None
    then show ?thesis by (simp add: fmtTZShort_def)
  next
    case (Some p)
    then have "p \<in> set (formatToParts t)" "part_type p = ''timeZoneName''"
      by (auto simp: find_Some_iff)
    then show ?thesis using Some by (auto simp: fmtTZShort_def)
  qed
qed

text \<open>The same on the three sample formatters.\<close>

theorem fmtTZShort_valid_date_witness:
  "fmtTZShort parts_with_zone (Some 1793700000000) = Inr ''CST'' \<and>
   fmtTZShort parts_with_empty_zone (Some 1793700000000) = Inr ''CT'' \<and>
   fmtTZShort parts_without_zone (Some 1793700000000) = Inr ''CT''"
proof -
  have f: "find (\<lambda>p. part_type p = ''timeZoneName'') (parts_with_zone 1793700000000)
           = Some \<lparr>part_type = ''timeZoneName'', part_value = ''CST''\<rparr>"
    by (simp add: parts_with_zone_def)
  have e: "find (\<lambda>p. part_type p = ''timeZoneName'') (parts_with_empty_zone 1793700000000)
           = Some \<lparr>part_type = ''timeZoneName'', part_value = []\<rparr>"
    by (simp add: parts_with_empty_zone_def)
  have n: "\<forall>p\<in>set (parts_without_zone 1793700000000). part_type p \<noteq> ''timeZoneName''"
    by (simp add: parts_without_zone_def)
  show ?thesis
    using f e n fmtTZShort_valid_date[of parts_with_zone 1793700000000]
      fmtTZShort_valid_date[of parts_with_empty_zone 1793700000000]
      fmtTZShort_valid_date[of parts_without_zone 1793700000000]
    by auto
qed

end
